theory Spec2Isabelle
  imports Main
begin

section \<open>pouty/console.py: the colour console printer\<close>

text \<open>
  A shallow embedding of \<^verbatim>\<open>src/pouty/console.py\<close>. Python strings are modelled as
  \<open>string\<close> (one \<open>char\<close> per code point below 256), exceptions as values of \<open>exc\<close>,
  and every mutation of module globals, class attributes, streams and files as an
  explicit \<open>world\<close> that each operation takes and returns.
\<close>

subsection \<open>Characters and string helpers\<close>

abbreviation ESC :: char where "ESC \<equiv> CHR 0x1B"
abbreviation NL :: char where "NL \<equiv> CHR 0x0A"
abbreviation SP :: char where "SP \<equiv> CHR 0x20"

text \<open>\<^verbatim>\<open>str.isspace\<close> on the code points below 256.\<close>

definition isspace :: "char \<Rightarrow> bool" where
  "isspace c = (c \<in> set [CHR 0x09, CHR 0x0A, CHR 0x0B, CHR 0x0C, CHR 0x0D,
                          CHR 0x1C, CHR 0x1D, CHR 0x1E, CHR 0x1F, CHR 0x20,
                          CHR 0x85, CHR 0xA0])"

text \<open>\<^verbatim>\<open>s.strip()\<close>: whitespace removed at both ends.\<close>

definition strip :: "string \<Rightarrow> string" where
  "strip s = rev (dropWhile isspace (rev (dropWhile isspace s)))"

text \<open>\<^verbatim>\<open>s.endswith('\n')\<close>.\<close>

definition endswith_nl :: "string \<Rightarrow> bool" where
  "endswith_nl s = (case rev s of [] \<Rightarrow> False | c # _ \<Rightarrow> c = NL)"

text \<open>
  \<^verbatim>\<open>s.split('\n')\<close>: the list of the maximal newline-free segments, never empty.
  \<open>split_acc cur s\<close> carries the segment read so far.
\<close>

fun split_acc :: "string \<Rightarrow> string \<Rightarrow> string list" where
  "split_acc cur [] = [cur]"
| "split_acc cur (c # cs) =
     (if c = NL then cur # split_acc [] cs else split_acc (cur @ [c]) cs)"

definition split_nl :: "string \<Rightarrow> string list" where
  "split_nl s = split_acc [] s"

text \<open>\<^verbatim>\<open>s.ljust(n, c)\<close> and \<^verbatim>\<open>s.split('.')[-1]\<close>.\<close>

definition ljust :: "nat \<Rightarrow> char \<Rightarrow> string \<Rightarrow> string" where
  "ljust n c s = s @ replicate (n - length s) c"

definition last_dot_field :: "string \<Rightarrow> string" where
  "last_dot_field s = rev (takeWhile (\<lambda>c. c \<noteq> CHR ''.'') (rev s))"

subsection \<open>Terminal colour functions\<close>

text \<open>\<^verbatim>\<open>_color_format(code, text) = f'\033[{code}m{text}\033[0m'\<close>.\<close>

definition color_format :: "string \<Rightarrow> string \<Rightarrow> string" where
  "color_format code text = ESC # CHR ''['' # code @ ''m'' @ text @ ESC # ''[0m''"

definition snow :: "string \<Rightarrow> string" where "snow s = color_format ''1;37'' s"
definition white :: "string \<Rightarrow> string" where "white s = color_format ''0;37'' s"
definition lightgray :: "string \<Rightarrow> string" where "lightgray s = color_format ''1;36'' s"
definition smoke :: "string \<Rightarrow> string" where "smoke s = color_format ''1;36'' s"
definition dimgray :: "string \<Rightarrow> string" where "dimgray s = color_format ''1;33'' s"
definition gray :: "string \<Rightarrow> string" where "gray s = color_format ''1;30'' s"
definition cadetblue :: "string \<Rightarrow> string" where "cadetblue s = color_format ''1;34'' s"
definition seafoam :: "string \<Rightarrow> string" where "seafoam s = color_format ''1;32'' s"
definition cyan :: "string \<Rightarrow> string" where "cyan s = color_format ''0;36'' s"
definition blue :: "string \<Rightarrow> string" where "blue s = color_format ''0;34'' s"
definition purple :: "string \<Rightarrow> string" where "purple s = color_format ''1;35'' s"
definition pink :: "string \<Rightarrow> string" where "pink s = color_format ''0;35'' s"
definition red :: "string \<Rightarrow> string" where "red s = color_format ''0;31'' s"
definition orange :: "string \<Rightarrow> string" where "orange s = color_format ''1;31'' s"
definition yellow :: "string \<Rightarrow> string" where "yellow s = color_format ''0;33'' s"
definition ochre :: "string \<Rightarrow> string" where "ochre s = color_format ''0;33'' s"
definition green :: "string \<Rightarrow> string" where "green s = color_format ''0;32'' s"
definition default :: "string \<Rightarrow> string" where "default s = color_format '''' s"

text \<open>The name-to-function table \<^verbatim>\<open>COL_FUNC\<close>, synonyms included.\<close>

definition COL_FUNC :: "(string \<times> (string \<Rightarrow> string)) list" where
  "COL_FUNC =
    [(''snow'', snow), (''white'', white), (''lightgray'', lightgray),
     (''smoke'', smoke), (''dimgray'', dimgray), (''gray'', gray),
     (''cadetblue'', cadetblue), (''seafoam'', seafoam), (''cyan'', cyan),
     (''blue'', blue), (''purple'', purple), (''pink'', pink), (''red'', red),
     (''orange'', orange), (''yellow'', yellow), (''ochre'', ochre),
     (''green'', green), (''lightred'', orange), (''lightgreen'', seafoam),
     (''brown'', yellow), (''lightblue'', cadetblue), (''lightcyan'', lightgray),
     (''default'', default)]"

definition DEFAULT_PREFIX_COLOR :: string where "DEFAULT_PREFIX_COLOR = ''cyan''"
definition DEFAULT_MSG_COLOR :: string where "DEFAULT_MSG_COLOR = ''default''"

subsection \<open>Stripping escape codes\<close>

text \<open>
  \<^verbatim>\<open>re.sub('(\x1b\[\d;\d\dm)|(\x1b\[0m)', '', s)\<close>. \<open>match_len s\<close> is the length of the
  match of the pattern at the start of \<open>s\<close>, first alternative first; the two
  alternatives differ in their fourth character, so at most one applies.
\<close>

definition isdigit :: "char \<Rightarrow> bool" where
  "isdigit c = (c \<in> set ''0123456789'')"

definition match_len :: "string \<Rightarrow> nat option" where
  "match_len s =
    (if length s \<ge> 7 \<and> s ! 0 = ESC \<and> s ! 1 = CHR ''['' \<and> isdigit (s ! 2) \<and>
        s ! 3 = CHR '';'' \<and> isdigit (s ! 4) \<and> isdigit (s ! 5) \<and> s ! 6 = CHR ''m''
     then Some 7
     else if length s \<ge> 4 \<and> take 4 s = ESC # ''[0m'' then Some 4
     else None)"

text \<open>
  The substitution scans from the left and resumes after each match;
  \<open>strip_from k s\<close> still has \<open>k\<close> characters of the current match to drop.
\<close>

fun strip_from :: "nat \<Rightarrow> string \<Rightarrow> string" where
  "strip_from k [] = []"
| "strip_from (Suc k) (c # cs) = strip_from k cs"
| "strip_from 0 (c # cs) =
     (case match_len (c # cs) of
        Some n \<Rightarrow> strip_from (n - 1) cs
      | None \<Rightarrow> c # strip_from 0 cs)"

definition strip_codes :: "string \<Rightarrow> string" where
  "strip_codes s = strip_from 0 s"

subsection \<open>Exceptions, platform and process state\<close>

datatype exc =
    ValueError
  | NameError string
  | KeyError string
  | IndexError
  | FormatError

text \<open>
  The names bound at module level of \<^verbatim>\<open>console.py\<close> by its imports
  (\<^verbatim>\<open>import os\<close>, \<^verbatim>\<open>import re\<close>, \<^verbatim>\<open>import time\<close>,
  \<^verbatim>\<open>from sys import stdout, stderr, platform\<close>,
  \<^verbatim>\<open>from roto.paths import tilde\<close>, \<^verbatim>\<open>from .notifier import Notifier\<close>).
  A name that is neither here, nor defined in the module, nor a builtin raises
  NameError when it is evaluated.
\<close>

definition imported_names :: "string list" where
  "imported_names =
    [''os'', ''re'', ''time'', ''stdout'', ''stderr'', ''platform'', ''tilde'', ''Notifier'']"

text \<open>The wall clock as \<^verbatim>\<open>time.strftime\<close> reads it.\<close>

record clock =
  year :: nat
  month :: nat
  day :: nat
  hour :: nat
  minute :: nat
  second :: nat

text \<open>
  What the code takes from the platform and from libraries outside the repository:
  \<^verbatim>\<open>WINDOWS\<close>, \<^verbatim>\<open>os.path.sep\<close>, \<^verbatim>\<open>roto.paths.tilde\<close>, \<^verbatim>\<open>str.format\<close>,
  whether \<^verbatim>\<open>open(path, mode, 1)\<close> succeeds, \<^verbatim>\<open>str(time.time())\<close> and the clock.
\<close>

record env =
  WINDOWS :: bool
  sep :: char
  tilde :: "string \<Rightarrow> string"
  format :: "string \<Rightarrow> string list \<Rightarrow> (string \<times> string) list \<Rightarrow> exc + string"
  can_open :: "string \<Rightarrow> bool"
  time_str :: string
  now :: clock

text \<open>An open file object: the path it writes to and its \<^verbatim>\<open>closed\<close> attribute.\<close>

record handle =
  hpath :: string
  hclosed :: bool

text \<open>
  The process: the module globals \<^verbatim>\<open>QUIET_MODE\<close> and \<^verbatim>\<open>DEBUG_MODE\<close>, the class
  attributes of \<^verbatim>\<open>ConsolePrinter\<close>, the two console streams, the files, and
  the notification collaborator.

  Modelled from the spec: the \<^verbatim>\<open>Notifier\<close> class of \<^verbatim>\<open>pouty/notifier.py\<close>, of
  which only the calls are in the source, is a fire-and-forget collaborator
  \<^verbatim>\<open>notify(body, title, subtitle)\<close>; the model counts its constructions and
  records each call's arguments.
\<close>

record world =
  QUIET_MODE :: bool
  DEBUG_MODE :: bool
  outputfile :: "string option"
  fd :: "handle option"
  timestamps :: bool
  hanging :: bool
  stdout :: string
  stderr :: string
  files :: "string \<Rightarrow> string option"
  notifiers_built :: nat
  notified :: "(string \<times> string \<times> string option) list"

text \<open>A printer instance: \<^verbatim>\<open>_prefix\<close>, \<^verbatim>\<open>_pref\<close>, \<^verbatim>\<open>_msgf\<close>, and whether
  \<^verbatim>\<open>_notifier\<close> has been constructed.\<close>

record printer =
  prefix0 :: string
  pref :: "string \<Rightarrow> string"
  msgf :: "string \<Rightarrow> string"
  notifier :: bool

text \<open>
  The keyword arguments of \<^verbatim>\<open>__call__\<close>. \<open>prefix_kw\<close> and \<open>quiet_kw\<close> are the keys
  \<^verbatim>\<open>'prefix'\<close> and \<^verbatim>\<open>'quiet'\<close> that the code pops from \<^verbatim>\<open>**fmt\<close> (\<open>None\<close> when
  absent); \<open>fmt\<close> is what remains.
\<close>

record opts =
  hideprefix :: bool
  popup :: bool
  debug :: bool
  error :: bool
  warning :: bool
  prefix_kw :: "string option"
  quiet_kw :: "bool option"
  fmt :: "(string \<times> string) list"

datatype stream = Stdout | Stderr

text \<open>\<^verbatim>\<open>print(text, file=console)\<close>: the text and a newline.\<close>

definition print_to :: "stream \<Rightarrow> string \<Rightarrow> world \<Rightarrow> world" where
  "print_to console text w =
    (case console of
       Stdout \<Rightarrow> w\<lparr>stdout := stdout w @ text @ [NL]\<rparr>
     | Stderr \<Rightarrow> w\<lparr>stderr := stderr w @ text @ [NL]\<rparr>)"

text \<open>\<^verbatim>\<open>_isopen\<close>, and \<^verbatim>\<open>cls._fd.write(text)\<close> followed by the flush.\<close>

definition isopen :: "world \<Rightarrow> bool" where
  "isopen w = (case fd w of None \<Rightarrow> False | Some h \<Rightarrow> \<not> hclosed h)"

definition fd_write :: "string \<Rightarrow> world \<Rightarrow> world" where
  "fd_write text w =
    (case fd w of
       None \<Rightarrow> w
     | Some h \<Rightarrow>
        w\<lparr>files := (files w)(hpath h \<mapsto>
             (case files w (hpath h) of None \<Rightarrow> text | Some old \<Rightarrow> old @ text))\<rparr>)"

subsection \<open>Timestamps\<close>

text \<open>
  \<^verbatim>\<open>time.strftime\<close> on the directives the code uses; every other character of
  the format is copied. The clock is the current local time, so the year has four
  digits.
\<close>

definition digit :: "nat \<Rightarrow> char" where
  "digit n = ''0123456789'' ! (n mod 10)"

definition dec2 :: "nat \<Rightarrow> string" where
  "dec2 n = [digit (n div 10), digit n]"

definition dec4 :: "nat \<Rightarrow> string" where
  "dec4 n = [digit (n div 1000), digit (n div 100), digit (n div 10), digit n]"

definition directive :: "clock \<Rightarrow> char \<Rightarrow> string" where
  "directive t d =
    (if d = CHR ''Y'' then dec4 (year t)
     else if d = CHR ''m'' then dec2 (month t)
     else if d = CHR ''d'' then dec2 (day t)
     else if d = CHR ''H'' then dec2 (hour t)
     else if d = CHR ''M'' then dec2 (minute t)
     else if d = CHR ''S'' then dec2 (second t)
     else [CHR ''%'', d])"

fun strftime :: "clock \<Rightarrow> string \<Rightarrow> string" where
  "strftime t [] = []"
| "strftime t [c] = [c]"
| "strftime t (c # d # cs) =
     (if c = CHR ''%'' then directive t d @ strftime t cs
      else c # strftime t (d # cs))"

text \<open>
  \<^verbatim>\<open>ConsolePrinter.timestamp\<close>: the sub-second field is the text after the last
  dot of \<^verbatim>\<open>str(time.time())\<close>, cut to six characters and padded with zeros; it is
  put into the format string, brackets included, before \<^verbatim>\<open>strftime\<close> runs.
\<close>

definition subsec :: "env \<Rightarrow> string" where
  "subsec e = ljust 6 (CHR ''0'') (take 6 (last_dot_field (time_str e)))"

definition timestamp :: "env \<Rightarrow> string" where
  "timestamp e = strftime (now e) (''[%Y-%m-%d+%H:%M+%S.'' @ subsec e @ '']'')"

subsection \<open>The output file\<close>

text \<open>
  \<^verbatim>\<open>print(text, file=sys.stderr)\<close> as \<^verbatim>\<open>openfile\<close> writes it: the keyword argument
  evaluates the name \<^verbatim>\<open>sys\<close>, which the module never imports, before anything is
  printed.
\<close>

definition print_sys_stderr :: "string \<Rightarrow> world \<Rightarrow> exc option \<times> world" where
  "print_sys_stderr text w =
    (if ''sys'' \<in> set imported_names then (None, print_to Stderr text w)
     else (Some (NameError ''sys''), w))"

text \<open>
  \<^verbatim>\<open>openfile(newfile)\<close>. Mode \<^verbatim>\<open>'w'\<close> truncates, mode \<^verbatim>\<open>'a'\<close> keeps what the
  file holds. On IOError both class attributes are cleared and the message (a plain
  string literal, not an f-string) is printed.
\<close>

definition openfile :: "env \<Rightarrow> bool \<Rightarrow> world \<Rightarrow> exc option \<times> world" where
  "openfile e newfile w =
    (case outputfile w of
       None \<Rightarrow> print_sys_stderr ''No output file has been set'' w
     | Some path \<Rightarrow>
        if isopen w then (None, w)
        else if can_open e path then
          (None, w\<lparr>fd := Some \<lparr>hpath = path, hclosed = False\<rparr>,
                   files := (files w)(path \<mapsto>
                     (if newfile then []
                      else (case files w path of None \<Rightarrow> [] | Some old \<Rightarrow> old)))\<rparr>)
        else
          print_sys_stderr ''IOError: Could not open {cls._outputfile!r}''
            (w\<lparr>outputfile := None, fd := None\<rparr>))"

definition closefile :: "world \<Rightarrow> world" where
  "closefile w = (if \<not> isopen w then w\<lparr>fd := None\<rparr> else w\<lparr>fd := None\<rparr>)"

definition set_outputfile :: "env \<Rightarrow> string option \<Rightarrow> bool \<Rightarrow> world \<Rightarrow> exc option \<times> world" where
  "set_outputfile e fpath newfile w =
    (if fpath = outputfile w \<and> isopen w then (None, w)
     else
       let w1 = closefile w;
           w2 = w1\<lparr>outputfile := fpath, fd := None\<rparr>
       in if outputfile w2 \<noteq> None then openfile e newfile w2 else (None, w2))"


subsection \<open>Raw output\<close>

text \<open>
  \<^verbatim>\<open>printf(s, color)\<close>: nothing at all in quiet mode; otherwise the colour
  function is looked up (KeyError for an unknown name), the text goes to stdout,
  a stripped copy to the open file, and the hanging flag is set from the text.
\<close>

definition printf_write :: "env \<Rightarrow> (string \<Rightarrow> string) \<Rightarrow> string \<Rightarrow> world \<Rightarrow> world" where
  "printf_write e colf s w =
    (let w1 = w\<lparr>stdout := stdout w @ (if WINDOWS e then s else colf s)\<rparr>;
         w2 = (if isopen w1 then fd_write (strip_codes s) w1 else w1)
     in w2\<lparr>hanging := \<not> endswith_nl s\<rparr>)"

definition printf :: "env \<Rightarrow> printer \<Rightarrow> string \<Rightarrow> string option \<Rightarrow> world \<Rightarrow> exc option \<times> world" where
  "printf e p s color w =
    (if QUIET_MODE w then (None, w)
     else
       (case color of
          None \<Rightarrow> (None, printf_write e (pref p) s w)
        | Some c \<Rightarrow>
           (case map_of COL_FUNC c of
              None \<Rightarrow> (Some (KeyError c), w)
            | Some colf \<Rightarrow> (None, printf_write e colf s w))))"

definition newline :: "env \<Rightarrow> printer \<Rightarrow> world \<Rightarrow> exc option \<times> world" where
  "newline e p w = printf e p [NL] None w"

subsection \<open>Creating a printer\<close>

definition set_color :: "env \<Rightarrow> string \<Rightarrow> string option \<Rightarrow> exc + (string \<Rightarrow> string)" where
  "set_color e dflt color =
    (let c = (case color of None \<Rightarrow> dflt | Some c \<Rightarrow> c)
     in if WINDOWS e then Inr (\<lambda>s. s)
        else (case map_of COL_FUNC c of None \<Rightarrow> Inl (KeyError c) | Some f \<Rightarrow> Inr f))"

definition init :: "env \<Rightarrow> string \<Rightarrow> string option \<Rightarrow> string option \<Rightarrow> exc + printer" where
  "init e prefix prefix_color message_color =
    (case set_color e DEFAULT_PREFIX_COLOR prefix_color of
       Inl x \<Rightarrow> Inl x
     | Inr pf \<Rightarrow>
        (case set_color e DEFAULT_MSG_COLOR message_color of
           Inl x \<Rightarrow> Inl x
         | Inr mf \<Rightarrow> Inr \<lparr>prefix0 = prefix, pref = pf, msgf = mf, notifier = False\<rparr>))"

subsection \<open>The prefixed emit\<close>

text \<open>The prefix: the keyword or the instance default, stripped, then overridden
  by the severity flags in the order debug, warning, error.\<close>

definition final_prefix :: "printer \<Rightarrow> opts \<Rightarrow> string" where
  "final_prefix p k =
    (let prefix1 = strip (case prefix_kw k of None \<Rightarrow> prefix0 p | Some x \<Rightarrow> x);
         prefix2 = (if debug k then ''Debug'' else prefix1);
         prefix3 = (if warning k then ''Warning'' else prefix2)
     in if error k then ''Error'' else prefix3)"

definition pre_of :: "string \<Rightarrow> string" where
  "pre_of prefix = (if prefix \<noteq> [] then prefix @ '': '' else [])"

text \<open>The display message: ValueError without arguments, the single argument as
  it is, else the first formatted with the rest; then \<^verbatim>\<open>tilde\<close> when the text
  holds a path separator.\<close>

definition display_message :: "env \<Rightarrow> string list \<Rightarrow> (string \<times> string) list \<Rightarrow> exc + string" where
  "display_message e msg fm =
    (case (case msg of
             [] \<Rightarrow> Inl ValueError
           | [m] \<Rightarrow> Inr m
           | m # args \<Rightarrow> format e m args fm) of
       Inl x \<Rightarrow> Inl x
     | Inr m \<Rightarrow> Inr (if sep e \<in> set m then tilde e m else m))"

definition select_colors ::
  "printer \<Rightarrow> opts \<Rightarrow> (string \<Rightarrow> string) \<times> (string \<Rightarrow> string) \<times> stream" where
  "select_colors p k =
    (if error k then (red, red, Stderr)
     else if warning k then (orange, orange, Stderr)
     else if debug k then (dimgray, smoke, Stdout)
     else (pref p, msgf p, Stdout))"

text \<open>The file copy of a message; the second component is \<^verbatim>\<open>msg\<close> as the rest
  of the call sees it, which the stripping replaces only inside this branch.\<close>

definition mirror ::
  "env \<Rightarrow> printer \<Rightarrow> opts \<Rightarrow> string \<Rightarrow> string \<Rightarrow> string \<Rightarrow> world \<Rightarrow> string \<times> world" where
  "mirror e p k prefix pre m w =
    (if isopen w \<and> \<not> debug k then
       let w1 = (if timestamps w then fd_write (''[ '' @ timestamp e @ '' ]  '') w else w);
           w2 = (if error k then fd_write ''ERROR -> '' w1
                 else if warning k then fd_write ''WARNING -> '' w1
                 else if prefix \<noteq> [] \<and> prefix \<noteq> prefix0 p \<and> \<not> hideprefix k
                   then fd_write pre w1
                 else w1);
           m' = strip_codes m
       in (m', fd_write (m' @ [NL]) w2)
     else (m, w))"

definition notify :: "string \<Rightarrow> string \<Rightarrow> string option \<Rightarrow> world \<Rightarrow> world" where
  "notify body title subtitle w = w\<lparr>notified := notified w @ [(body, title, subtitle)]\<rparr>"

definition popup_notify :: "printer \<Rightarrow> opts \<Rightarrow> string \<Rightarrow> world \<Rightarrow> printer \<times> world" where
  "popup_notify p k m w =
    (if popup k then
       let (p1, w1) =
             (if \<not> notifier p
              then (p\<lparr>notifier := True\<rparr>, w\<lparr>notifiers_built := Suc (notifiers_built w)\<rparr>)
              else (p, w))
       in if error k then (p1, notify (drop 7 m) ''Console'' (Some ''Error'') w1)
          else if warning k then (p1, notify (drop 9 m) ''Console'' (Some ''Warning'') w1)
          else (p1, notify m ''Console'' None w1)
     else (p, w))"

text \<open>
  The quiet flag of a call (\<^verbatim>\<open>fmt.pop('quiet', QUIET_MODE)\<close>) and the condition
  of the quick exit at the head of \<^verbatim>\<open>__call__\<close>.
\<close>

abbreviation effective_quiet :: "opts \<Rightarrow> world \<Rightarrow> bool" where
  "effective_quiet k w \<equiv> (case quiet_kw k of None \<Rightarrow> QUIET_MODE w | Some q \<Rightarrow> q)"

abbreviation suppressed :: "opts \<Rightarrow> world \<Rightarrow> bool" where
  "suppressed k w \<equiv>
     \<not> (warning k \<or> error k) \<and> (effective_quiet k w \<or> (debug k \<and> \<not> DEBUG_MODE w))"

text \<open>\<^verbatim>\<open>ConsolePrinter.__call__(*msg, **kwargs)\<close>.\<close>

definition call ::
  "env \<Rightarrow> printer \<Rightarrow> string list \<Rightarrow> opts \<Rightarrow> world \<Rightarrow> exc option \<times> printer \<times> world" where
  "call e p msg k w =
    (let quiet = (case quiet_kw k of None \<Rightarrow> QUIET_MODE w | Some q \<Rightarrow> q)
     in
     if \<not> (warning k \<or> error k) \<and> (quiet \<or> (debug k \<and> \<not> DEBUG_MODE w)) then (None, p, w)
     else
       let prefix = final_prefix p k;
           pre_shown = pre_of prefix;
           pre_len = length pre_shown;
           pre = (if hideprefix k then replicate pre_len SP else pre_shown)
       in
       (case display_message e msg (fmt k) of
          Inl x \<Rightarrow> (Some x, p, w)
        | Inr m \<Rightarrow>
           (case select_colors p k of (pf, mf, console) \<Rightarrow>
             (case (if hanging w then newline e p w else (None, w)) of
                (Some x, w1) \<Rightarrow> (Some x, p, w1)
              | (None, w1) \<Rightarrow>
                 (case split_nl m of
                    [] \<Rightarrow> (Some IndexError, p, w1)
                  | l # ls \<Rightarrow>
                     let w2 = print_to console (pf pre @ mf l) w1;
                         w3 = fold (\<lambda>line. print_to console (replicate pre_len SP @ mf line)) ls w2;
                         (m', w4) = mirror e p k prefix pre m w3;
                         (p', w5) = popup_notify p k m' w4
                     in (None, p', w5))))))"

text \<open>\<^verbatim>\<open>ConsolePrinter.debug\<close>: the same call with \<^verbatim>\<open>debug=True\<close>.\<close>

definition debug_call ::
  "env \<Rightarrow> printer \<Rightarrow> string list \<Rightarrow> opts \<Rightarrow> world \<Rightarrow> exc option \<times> printer \<times> world" where
  "debug_call e p msg k w = call e p msg (k\<lparr>debug := True\<rparr>) w"

subsection \<open>Reading the results\<close>

text \<open>What a file holds, the empty text when it does not exist.\<close>

definition content :: "world \<Rightarrow> string \<Rightarrow> string" where
  "content w path = (case files w path of None \<Rightarrow> [] | Some text \<Rightarrow> text)"

subsection \<open>Example inputs\<close>

text \<open>
  \<^verbatim>\<open>str.format\<close> on templates whose only replacement fields are the
  auto-numbered \<^verbatim>\<open>{}\<close>: each takes the next positional argument, IndexError when
  none is left. Any other brace is outside this fragment and is reported as
  \<open>FormatError\<close>.
\<close>

fun format_auto :: "string \<Rightarrow> string list \<Rightarrow> exc + string" where
  "format_auto [] args = Inr []"
| "format_auto [c] args = (if c = CHR ''{'' \<or> c = CHR ''}'' then Inl FormatError else Inr [c])"
| "format_auto (c # d # cs) args =
     (if c = CHR ''{'' \<and> d = CHR ''}'' then
        (case args of
           [] \<Rightarrow> Inl IndexError
         | a # rest \<Rightarrow>
            (case format_auto cs rest of Inl x \<Rightarrow> Inl x | Inr r \<Rightarrow> Inr (a @ r)))
      else if c = CHR ''{'' \<or> c = CHR ''}'' then Inl FormatError
      else (case format_auto (d # cs) args of Inl x \<Rightarrow> Inl x | Inr r \<Rightarrow> Inr (c # r)))"

text \<open>
  A POSIX platform on which every file opens, at 2024-11-04 19:30:05, and one on
  which none does. \<^verbatim>\<open>tilde\<close> only ever sees a message that holds a \<^verbatim>\<open>/\<close>; the
  examples have none.
\<close>

definition posix :: env where
  "posix = \<lparr>WINDOWS = False, sep = CHR ''/'', tilde = (\<lambda>s. s),
            format = (\<lambda>t args kw. format_auto t args), can_open = (\<lambda>path. True),
            time_str = ''1730748605.25'',
            now = \<lparr>year = 2024, month = 11, day = 4, hour = 19, minute = 30, second = 5\<rparr>\<rparr>"

definition posix_readonly :: env where
  "posix_readonly = posix\<lparr>can_open := (\<lambda>path. False)\<rparr>"

text \<open>The process at start-up (\<^verbatim>\<open>QUIET_MODE = False\<close>, \<^verbatim>\<open>DEBUG_MODE = False\<close>, the
  class attributes at their defaults, nothing printed, no files) and the module's
  own \<^verbatim>\<open>Logger = ConsolePrinter()\<close> on a POSIX platform.\<close>

definition world0 :: world where
  "world0 = \<lparr>QUIET_MODE = False, DEBUG_MODE = False, outputfile = None, fd = None,
             timestamps = False, hanging = False, stdout = [], stderr = [],
             files = Map.empty, notifiers_built = 0, notified = []\<rparr>"

text \<open>The process after \<^verbatim>\<open>set_outputfile('x.log', newfile=True)\<close> at start-up.\<close>

definition world_logging :: world where
  "world_logging = world0\<lparr>outputfile := Some ''x.log'',
                           fd := Some \<lparr>hpath = ''x.log'', hclosed = False\<rparr>,
                           files := [''x.log'' \<mapsto> []]\<rparr>"


definition Logger :: printer where
  "Logger = \<lparr>prefix0 = [], pref = cyan, msgf = default, notifier = False\<rparr>"

definition plain :: opts where
  "plain = \<lparr>hideprefix = False, popup = False, debug = False, error = False,
            warning = False, prefix_kw = None, quiet_kw = None, fmt = []\<rparr>"

section \<open>Derived facts\<close>

lemma split_acc_nonempty: "split_acc cur s \<noteq> []"
  by (induction s arbitrary: cur) auto

lemma split_nl_nonempty: "split_nl m \<noteq> []"
  by (simp add: split_nl_def split_acc_nonempty)

lemma newline_eq:
  "newline e p w = (None, if QUIET_MODE w then w else printf_write e (pref p) [NL] w)"
  by (simp add: newline_def printf_def)

text \<open>A call that passes the quick exit and has a message, as one expression.\<close>

lemma call_ungated:
  assumes g: "\<not> suppressed k w"
    and m: "display_message e msg (fmt k) = Inr m"
    and l: "split_nl m = l # ls"
  shows "call e p msg k w =
     (let prefix = final_prefix p k;
          n = length (pre_of prefix);
          pre = (if hideprefix k then replicate n SP else pre_of prefix);
          pf = fst (select_colors p k);
          mf = fst (snd (select_colors p k));
          console = snd (snd (select_colors p k));
          w1 = (if hanging w \<and> \<not> QUIET_MODE w then printf_write e (pref p) [NL] w else w);
          w3 = fold (\<lambda>line. print_to console (replicate n SP @ mf line)) ls
                 (print_to console (pf pre @ mf l) w1);
          mw = mirror e p k prefix pre m w3;
          pw = popup_notify p k (fst mw) (snd mw)
      in (None, fst pw, snd pw))"
proof -
  obtain pf mf console where sc: "select_colors p k = (pf, mf, console)"
    by (cases "select_colors p k") auto
  have h: "(if hanging w then newline e p w else (None, w)) =
           (None, if hanging w \<and> \<not> QUIET_MODE w then printf_write e (pref p) [NL] w else w)"
    by (simp add: newline_eq)
  show ?thesis
    unfolding call_def Let_def
    by (simp only: g if_False m l sc h sum.case prod.case list.case option.case
          fst_conv snd_conv case_prod_beta)
qed

lemma fold_print_to:
  "fold (\<lambda>line. print_to c (f line)) ls w =
   (case c of
      Stdout \<Rightarrow> w\<lparr>stdout := stdout w @ concat (map (\<lambda>line. f line @ [NL]) ls)\<rparr>
    | Stderr \<Rightarrow> w\<lparr>stderr := stderr w @ concat (map (\<lambda>line. f line @ [NL]) ls)\<rparr>)"
  by (induction ls arbitrary: w) (simp_all add: print_to_def split: stream.splits)

lemma fd_write_fields:
  "stdout (fd_write t w) = stdout w" "stderr (fd_write t w) = stderr w"
  "hanging (fd_write t w) = hanging w" "fd (fd_write t w) = fd w"
  "QUIET_MODE (fd_write t w) = QUIET_MODE w" "timestamps (fd_write t w) = timestamps w"
  "notified (fd_write t w) = notified w" "notifiers_built (fd_write t w) = notifiers_built w"
  by (simp_all add: fd_write_def split: option.splits)

lemma isopen_fd_write: "isopen (fd_write t w) = isopen w"
  by (simp add: isopen_def fd_write_fields)

lemma printf_write_fields:
  "stdout (printf_write e c s w) = stdout w @ (if WINDOWS e then s else c s)"
  "stderr (printf_write e c s w) = stderr w"
  "hanging (printf_write e c s w) = (\<not> endswith_nl s)"
  "fd (printf_write e c s w) = fd w"
  "QUIET_MODE (printf_write e c s w) = QUIET_MODE w"
  "timestamps (printf_write e c s w) = timestamps w"
  by (simp_all add: printf_write_def Let_def fd_write_fields)

lemma print_to_fields:
  "stdout (print_to c t w) = stdout w @ (case c of Stdout \<Rightarrow> t @ [NL] | Stderr \<Rightarrow> [])"
  "stderr (print_to c t w) = stderr w @ (case c of Stdout \<Rightarrow> [] | Stderr \<Rightarrow> t @ [NL])"
  "hanging (print_to c t w) = hanging w" "fd (print_to c t w) = fd w"
  "files (print_to c t w) = files w"
  "QUIET_MODE (print_to c t w) = QUIET_MODE w" "timestamps (print_to c t w) = timestamps w"
  by (simp_all add: print_to_def split: stream.splits)

lemma fold_print_fields:
  "stdout (fold (\<lambda>line. print_to c (f line)) ls w) =
     stdout w @ (case c of Stdout \<Rightarrow> concat (map (\<lambda>line. f line @ [NL]) ls) | Stderr \<Rightarrow> [])"
  "stderr (fold (\<lambda>line. print_to c (f line)) ls w) =
     stderr w @ (case c of Stdout \<Rightarrow> [] | Stderr \<Rightarrow> concat (map (\<lambda>line. f line @ [NL]) ls))"
  "hanging (fold (\<lambda>line. print_to c (f line)) ls w) = hanging w"
  "fd (fold (\<lambda>line. print_to c (f line)) ls w) = fd w"
  "files (fold (\<lambda>line. print_to c (f line)) ls w) = files w"
  "QUIET_MODE (fold (\<lambda>line. print_to c (f line)) ls w) = QUIET_MODE w"
  "timestamps (fold (\<lambda>line. print_to c (f line)) ls w) = timestamps w"
  by (simp_all add: fold_print_to split: stream.splits)

lemma mirror_fields:
  "stdout (snd (mirror e p k prefix pre m w)) = stdout w"
  "stderr (snd (mirror e p k prefix pre m w)) = stderr w"
  "hanging (snd (mirror e p k prefix pre m w)) = hanging w"
  "fd (snd (mirror e p k prefix pre m w)) = fd w"
  "QUIET_MODE (snd (mirror e p k prefix pre m w)) = QUIET_MODE w"
  by (simp_all add: mirror_def Let_def fd_write_fields)

lemma popup_fields:
  "stdout (snd (popup_notify p k m w)) = stdout w"
  "stderr (snd (popup_notify p k m w)) = stderr w"
  "hanging (snd (popup_notify p k m w)) = hanging w"
  "fd (snd (popup_notify p k m w)) = fd w"
  "files (snd (popup_notify p k m w)) = files w"
  "QUIET_MODE (snd (popup_notify p k m w)) = QUIET_MODE w"
  by (simp_all add: popup_notify_def notify_def Let_def)

text \<open>What such a call leaves on the two streams and in the hanging flag.\<close>

lemma call_console:
  assumes g: "\<not> suppressed k w"
    and m: "display_message e msg (fmt k) = Inr m"
    and l: "split_nl m = l # ls"
  shows "fst (call e p msg k w) = None"
    and "stdout (snd (snd (call e p msg k w))) =
          stdout w
          @ (if hanging w \<and> \<not> QUIET_MODE w then (if WINDOWS e then [NL] else pref p [NL]) else [])
          @ (case snd (snd (select_colors p k)) of
               Stderr \<Rightarrow> []
             | Stdout \<Rightarrow>
                fst (select_colors p k)
                  (if hideprefix k then replicate (length (pre_of (final_prefix p k))) SP
                   else pre_of (final_prefix p k))
                @ fst (snd (select_colors p k)) l @ [NL]
                @ concat (map (\<lambda>line. replicate (length (pre_of (final_prefix p k))) SP
                                 @ fst (snd (select_colors p k)) line @ [NL]) ls))"
    and "stderr (snd (snd (call e p msg k w))) =
          stderr w
          @ (case snd (snd (select_colors p k)) of
               Stdout \<Rightarrow> []
             | Stderr \<Rightarrow>
                fst (select_colors p k)
                  (if hideprefix k then replicate (length (pre_of (final_prefix p k))) SP
                   else pre_of (final_prefix p k))
                @ fst (snd (select_colors p k)) l @ [NL]
                @ concat (map (\<lambda>line. replicate (length (pre_of (final_prefix p k))) SP
                                 @ fst (snd (select_colors p k)) line @ [NL]) ls))"
    and "hanging (snd (snd (call e p msg k w))) = (hanging w \<and> QUIET_MODE w)"
  by (simp_all add: call_ungated[OF g m l] Let_def popup_fields mirror_fields fold_print_fields
        print_to_fields printf_write_fields endswith_nl_def split: stream.splits) blast

text \<open>The global debug flag commutes with every step of a call that is not a
  debug call.\<close>

lemma fd_write_DEBUG: "fd_write t (w\<lparr>DEBUG_MODE := b\<rparr>) = (fd_write t w)\<lparr>DEBUG_MODE := b\<rparr>"
  by (simp add: fd_write_def split: option.splits)

lemma isopen_DEBUG: "isopen (w\<lparr>DEBUG_MODE := b\<rparr>) = isopen w"
  by (simp add: isopen_def)

lemma printf_write_DEBUG:
  "printf_write e c s (w\<lparr>DEBUG_MODE := b\<rparr>) = (printf_write e c s w)\<lparr>DEBUG_MODE := b\<rparr>"
  by (simp add: printf_write_def Let_def isopen_def fd_write_def split: option.splits)

lemma print_to_DEBUG:
  "print_to c t (w\<lparr>DEBUG_MODE := b\<rparr>) = (print_to c t w)\<lparr>DEBUG_MODE := b\<rparr>"
  by (simp add: print_to_def split: stream.splits)

lemma fold_print_DEBUG:
  "fold (\<lambda>line. print_to c (f line)) ls (w\<lparr>DEBUG_MODE := b\<rparr>) =
   (fold (\<lambda>line. print_to c (f line)) ls w)\<lparr>DEBUG_MODE := b\<rparr>"
  by (induction ls arbitrary: w) (simp_all add: print_to_DEBUG)

lemma mirror_DEBUG:
  "mirror e p k prefix pre m (w\<lparr>DEBUG_MODE := b\<rparr>) =
   (case mirror e p k prefix pre m w of (m', w') \<Rightarrow> (m', w'\<lparr>DEBUG_MODE := b\<rparr>))"
  by (simp add: mirror_def Let_def isopen_DEBUG fd_write_DEBUG)

lemma popup_DEBUG:
  "popup_notify p k m (w\<lparr>DEBUG_MODE := b\<rparr>) =
   (case popup_notify p k m w of (p', w') \<Rightarrow> (p', w'\<lparr>DEBUG_MODE := b\<rparr>))"
  by (simp add: popup_notify_def notify_def Let_def)

lemma call_DEBUG:
  "\<not> debug k \<Longrightarrow> call e p msg k (w\<lparr>DEBUG_MODE := b\<rparr>) =
      (case call e p msg k w of (x, p', w') \<Rightarrow> (x, p', w'\<lparr>DEBUG_MODE := b\<rparr>))"
  by (simp add: call_def Let_def newline_eq printf_write_DEBUG print_to_DEBUG fold_print_DEBUG
      mirror_DEBUG popup_DEBUG
      split: sum.splits prod.splits list.splits option.splits)

section \<open>The claims\<close>

text \<open>
  C10. A \<^verbatim>\<open>printf\<close> made while the global quiet mode is on returns at once: the
  whole process state is as before, so nothing reached the console or the file, and
  the hanging flag keeps the value it had, also when that value is true.
\<close>

theorem printf_quiet_no_effect:
  "QUIET_MODE w \<Longrightarrow> printf e p s color w = (None, w)"
  by (simp add: printf_def)

theorem printf_quiet_no_effect_witness:
  "QUIET_MODE (world_logging\<lparr>QUIET_MODE := True, hanging := True\<rparr>) \<and>
   printf posix Logger (''abc'' @ [NL]) (Some ''green'')
     (world_logging\<lparr>QUIET_MODE := True, hanging := True\<rparr>) =
   (None, world_logging\<lparr>QUIET_MODE := True, hanging := True\<rparr>)"
  using printf_quiet_no_effect
    [where w = "world_logging\<lparr>QUIET_MODE := True, hanging := True\<rparr>" and e = posix
       and p = Logger and s = "''abc'' @ [NL]" and color = "Some ''green''"]
  by simp

text \<open>
  C1. The quick exit of \<^verbatim>\<open>__call__\<close>. A call that is neither a warning nor an
  error returns with the printer and the process unchanged when its quiet flag
  (the keyword, else the global quiet mode) is set, or when it is a debug call and the
  global debug mode is off. A warning or an error with a message is printed on the
  error stream whatever the quiet flag and the quiet mode are. The global debug mode
  has no effect on a call that is not a debug call.
\<close>

theorem call_gating:
  "(\<not> warning k \<and> \<not> error k \<and> (effective_quiet k w \<or> (debug k \<and> \<not> DEBUG_MODE w))
      \<longrightarrow> call e p msg k w = (None, p, w))
   \<and> ((warning k \<or> error k) \<and> display_message e msg (fmt k) = Inr m \<and> split_nl m = l # ls
      \<longrightarrow> fst (call e p msg k w) = None \<and>
          stderr (snd (snd (call e p msg k w))) =
            stderr w
            @ (if error k then red else orange)
                (if hideprefix k
                 then replicate (length (if error k then ''Error: '' else ''Warning: '')) SP
                 else (if error k then ''Error: '' else ''Warning: ''))
            @ (if error k then red else orange) l @ [NL]
            @ concat (map (\<lambda>line.
                replicate (length (if error k then ''Error: '' else ''Warning: '')) SP
                @ (if error k then red else orange) line @ [NL]) ls))
   \<and> (\<not> debug k
      \<longrightarrow> call e p msg k (w\<lparr>DEBUG_MODE := b\<rparr>) =
          (case call e p msg k w of (x, p', w') \<Rightarrow> (x, p', w'\<lparr>DEBUG_MODE := b\<rparr>)))"
proof (intro conjI impI)
  assume "\<not> warning k \<and> \<not> error k \<and> (effective_quiet k w \<or> (debug k \<and> \<not> DEBUG_MODE w))"
  then show "call e p msg k w = (None, p, w)"
    by (simp add: call_def)
next
  assume a: "(warning k \<or> error k) \<and> display_message e msg (fmt k) = Inr m \<and> split_nl m = l # ls"
  then have g: "\<not> suppressed k w" by blast
  from a have m: "display_message e msg (fmt k) = Inr m" and l: "split_nl m = l # ls"
    by simp_all
  show "fst (call e p msg k w) = None"
    by (rule call_console(1)[OF g m l])
  from a have sev: "warning k \<or> error k" by simp
  show "stderr (snd (snd (call e p msg k w))) =
            stderr w
            @ (if error k then red else orange)
                (if hideprefix k
                 then replicate (length (if error k then ''Error: '' else ''Warning: '')) SP
                 else (if error k then ''Error: '' else ''Warning: ''))
            @ (if error k then red else orange) l @ [NL]
            @ concat (map (\<lambda>line.
                replicate (length (if error k then ''Error: '' else ''Warning: '')) SP
                @ (if error k then red else orange) line @ [NL]) ls)"
    using sev
    by (simp add: call_console(3)[OF g m l] select_colors_def final_prefix_def pre_of_def)
      blast
next
  assume "\<not> debug k"
  then show "call e p msg k (w\<lparr>DEBUG_MODE := b\<rparr>) =
          (case call e p msg k w of (x, p', w') \<Rightarrow> (x, p', w'\<lparr>DEBUG_MODE := b\<rparr>))"
    by (rule call_DEBUG)
qed

theorem call_gating_witness:
  "(\<not> warning plain \<and> \<not> error plain \<and>
      effective_quiet plain (world_logging\<lparr>QUIET_MODE := True\<rparr>) \<and>
      call posix Logger [''hello''] plain (world_logging\<lparr>QUIET_MODE := True\<rparr>) =
        (None, Logger, world_logging\<lparr>QUIET_MODE := True\<rparr>))
   \<and> (warning (plain\<lparr>warning := True, quiet_kw := Some True\<rparr>) \<and>
      display_message posix [''low disk''] [] = Inr ''low disk'' \<and>
      split_nl ''low disk'' = [''low disk''] \<and>
      stderr (snd (snd (call posix Logger [''low disk'']
                (plain\<lparr>warning := True, quiet_kw := Some True\<rparr>)
                (world_logging\<lparr>QUIET_MODE := True\<rparr>)))) =
        orange ''Warning: '' @ orange ''low disk'' @ [NL])
   \<and> (\<not> debug plain \<and>
      call posix Logger [''hello''] plain (world_logging\<lparr>DEBUG_MODE := True\<rparr>) =
        (case call posix Logger [''hello''] plain world_logging of
           (x, p', w') \<Rightarrow> (x, p', w'\<lparr>DEBUG_MODE := True\<rparr>)))"
proof -
  have k: "\<not> warning plain" "\<not> error plain" "\<not> debug plain" "quiet_kw plain = None"
    "fmt plain = []"
    by (simp_all add: plain_def)
  have q: "QUIET_MODE (world_logging\<lparr>QUIET_MODE := True\<rparr>)"
    by simp
  have m: "display_message posix [''low disk''] [] = Inr ''low disk''"
    by (simp add: display_message_def posix_def)
  have l: "split_nl ''low disk'' = [''low disk'']"
    by (simp add: split_nl_def)
  have a: "call posix Logger [''hello''] plain (world_logging\<lparr>QUIET_MODE := True\<rparr>) =
        (None, Logger, world_logging\<lparr>QUIET_MODE := True\<rparr>)"
    by (rule call_gating [THEN conjunct1, THEN mp]) (simp add: k)
  have "fst (call posix Logger [''low disk''] (plain\<lparr>warning := True, quiet_kw := Some True\<rparr>)
                (world_logging\<lparr>QUIET_MODE := True\<rparr>)) = None \<and>
        stderr (snd (snd (call posix Logger [''low disk'']
                (plain\<lparr>warning := True, quiet_kw := Some True\<rparr>)
                (world_logging\<lparr>QUIET_MODE := True\<rparr>)))) =
        stderr (world_logging\<lparr>QUIET_MODE := True\<rparr>)
            @ (if error (plain\<lparr>warning := True, quiet_kw := Some True\<rparr>) then red else orange)
                (if hideprefix (plain\<lparr>warning := True, quiet_kw := Some True\<rparr>)
                 then replicate (length (if error (plain\<lparr>warning := True, quiet_kw := Some True\<rparr>) then ''Error: '' else ''Warning: '')) SP
                 else (if error (plain\<lparr>warning := True, quiet_kw := Some True\<rparr>) then ''Error: '' else ''Warning: ''))
            @ (if error (plain\<lparr>warning := True, quiet_kw := Some True\<rparr>) then red else orange) ''low disk'' @ [NL]
            @ concat (map (\<lambda>line.
                replicate (length (if error (plain\<lparr>warning := True, quiet_kw := Some True\<rparr>) then ''Error: '' else ''Warning: '')) SP
                @ (if error (plain\<lparr>warning := True, quiet_kw := Some True\<rparr>) then red else orange) line @ [NL]) [])"
    by (rule call_gating [where m = "''low disk''", THEN conjunct2, THEN conjunct1, THEN mp])
       (simp add: m l k)
  then have b: "stderr (snd (snd (call posix Logger [''low disk'']
                (plain\<lparr>warning := True, quiet_kw := Some True\<rparr>)
                (world_logging\<lparr>QUIET_MODE := True\<rparr>)))) =
        orange ''Warning: '' @ orange ''low disk'' @ [NL]"
    by (simp add: plain_def world_logging_def world0_def)
  have c: "call posix Logger [''hello''] plain (world_logging\<lparr>DEBUG_MODE := True\<rparr>) =
        (case call posix Logger [''hello''] plain world_logging of
           (x, p', w') \<Rightarrow> (x, p', w'\<lparr>DEBUG_MODE := True\<rparr>))"
    by (rule call_gating [THEN conjunct2, THEN conjunct2, THEN mp]) (rule k)
  show ?thesis
    by (intro conjI k q a b c m l) (simp_all add: k)
qed

text \<open>
  C4 (as amended). A call without message arguments raises ValueError, with the
  printer and the process untouched, exactly when it passes the quick exit; a call
  that the quick exit suppresses returns silently, arguments or not.
\<close>

theorem call_no_args:
  "call e p [] k w =
     (if \<not> (warning k \<or> error k) \<and> (effective_quiet k w \<or> (debug k \<and> \<not> DEBUG_MODE w))
      then (None, p, w) else (Some ValueError, p, w))"
  by (simp add: call_def display_message_def Let_def)

theorem call_no_args_witness:
  "call posix Logger [] (plain\<lparr>error := True\<rparr>) (world_logging\<lparr>QUIET_MODE := True\<rparr>) =
     (Some ValueError, Logger, world_logging\<lparr>QUIET_MODE := True\<rparr>) \<and>
   call posix Logger [] plain world_logging = (Some ValueError, Logger, world_logging)"
  using call_no_args [where e = posix and p = Logger and k = "plain\<lparr>error := True\<rparr>"
      and w = "world_logging\<lparr>QUIET_MODE := True\<rparr>"]
    call_no_args [where e = posix and p = Logger and k = plain and w = world_logging]
  by (simp add: plain_def world_logging_def world0_def)

text \<open>
  C4 as stated fails: with the global quiet mode on, a plain call without message
  arguments returns without raising.
\<close>

theorem call_no_args_quiet_counterexample:
  "fst (call posix Logger [] plain (world_logging\<lparr>QUIET_MODE := True\<rparr>)) \<noteq> Some ValueError \<and>
   call posix Logger [] plain (world_logging\<lparr>QUIET_MODE := True\<rparr>) =
     (None, Logger, world_logging\<lparr>QUIET_MODE := True\<rparr>)"
  by (simp add: call_def plain_def world_logging_def world0_def)

text \<open>
  C5. When the file does not open, \<^verbatim>\<open>openfile\<close> clears the stored path and the
  handle, but the report on the error stream never happens: evaluating
  \<^verbatim>\<open>sys.stderr\<close> raises NameError, which leaves \<^verbatim>\<open>openfile\<close> (and
  \<^verbatim>\<open>set_outputfile\<close>, its caller) as an exception, the error stream unwritten.
\<close>

theorem openfile_ioerror_raises:
  "outputfile w = Some path \<Longrightarrow> \<not> isopen w \<Longrightarrow> \<not> can_open e path \<Longrightarrow>
   openfile e newfile w = (Some (NameError ''sys''), w\<lparr>outputfile := None, fd := None\<rparr>)"
  by (simp add: openfile_def print_sys_stderr_def imported_names_def)

theorem openfile_ioerror_raises_witness:
  "outputfile (world0\<lparr>outputfile := Some ''/nonexistent/x.log''\<rparr>) = Some ''/nonexistent/x.log'' \<and>
   \<not> isopen (world0\<lparr>outputfile := Some ''/nonexistent/x.log''\<rparr>) \<and>
   \<not> can_open posix_readonly ''/nonexistent/x.log'' \<and>
   openfile posix_readonly False (world0\<lparr>outputfile := Some ''/nonexistent/x.log''\<rparr>) =
     (Some (NameError ''sys''), world0) \<and>
   set_outputfile posix_readonly (Some ''/nonexistent/x.log'') False world0 =
     (Some (NameError ''sys''), world0)"
  using openfile_ioerror_raises [where w = "world0\<lparr>outputfile := Some ''/nonexistent/x.log''\<rparr>"
      and path = "''/nonexistent/x.log''" and e = posix_readonly and newfile = False]
  by (simp add: isopen_def world0_def posix_readonly_def posix_def set_outputfile_def
      closefile_def Let_def)

lemma length_pre_of:
  "length (pre_of prefix) = (if prefix = [] then 0 else length prefix + 2)"
  by (simp add: pre_of_def)

text \<open>
  C6. A call that produces console output prints, after its first line, every
  further line of the message behind exactly as many spaces as the display prefix
  is long: the length of the prefix plus two for \<^verbatim>\<open>': '\<close>, or none when the prefix
  is empty. The count is the same when \<^verbatim>\<open>hideprefix\<close> blanks the prefix of the
  first line. Errors and warnings go to the error stream, everything else to the
  normal stream, where a pending newline of a hanging line comes first.
\<close>

theorem continuation_indent:
  assumes "\<not> suppressed k w"
    and "display_message e msg (fmt k) = Inr m"
    and "split_nl m = l # ls"
  shows
    "(if error k \<or> warning k
      then stderr (snd (snd (call e p msg k w))) =
             stderr w
             @ fst (select_colors p k)
                 (if hideprefix k
                  then replicate (if final_prefix p k = [] then 0 else length (final_prefix p k) + 2) SP
                  else pre_of (final_prefix p k))
             @ fst (snd (select_colors p k)) l @ [NL]
             @ concat (map (\<lambda>line.
                 replicate (if final_prefix p k = [] then 0 else length (final_prefix p k) + 2) SP
                 @ fst (snd (select_colors p k)) line @ [NL]) ls)
      else stdout (snd (snd (call e p msg k w))) =
             stdout w
             @ (if hanging w \<and> \<not> QUIET_MODE w
                then (if WINDOWS e then [NL] else pref p [NL]) else [])
             @ fst (select_colors p k)
                 (if hideprefix k
                  then replicate (if final_prefix p k = [] then 0 else length (final_prefix p k) + 2) SP
                  else pre_of (final_prefix p k))
             @ fst (snd (select_colors p k)) l @ [NL]
             @ concat (map (\<lambda>line.
                 replicate (if final_prefix p k = [] then 0 else length (final_prefix p k) + 2) SP
                 @ fst (snd (select_colors p k)) line @ [NL]) ls))"
proof -
  have c: "snd (snd (select_colors p k)) = (if error k \<or> warning k then Stderr else Stdout)"
    by (simp add: select_colors_def)
  show ?thesis
    by (simp add: call_console(2,3)[OF assms] c length_pre_of)
qed

theorem continuation_indent_witness:
  "\<not> suppressed (plain\<lparr>hideprefix := True, prefix_kw := Some '' job ''\<rparr>) world_logging \<and>
   display_message posix [''a'' @ [NL] @ ''b'']
     (fmt (plain\<lparr>hideprefix := True, prefix_kw := Some '' job ''\<rparr>)) = Inr (''a'' @ [NL] @ ''b'') \<and>
   split_nl (''a'' @ [NL] @ ''b'') = [''a'', ''b''] \<and>
   stdout (snd (snd (call posix Logger [''a'' @ [NL] @ ''b'']
       (plain\<lparr>hideprefix := True, prefix_kw := Some '' job ''\<rparr>) world_logging))) =
     cyan ''     '' @ default ''a'' @ [NL] @ ''     '' @ default ''b'' @ [NL]"
proof -
  have g: "\<not> suppressed (plain\<lparr>hideprefix := True, prefix_kw := Some '' job ''\<rparr>) world_logging"
    by (simp add: plain_def world_logging_def world0_def)
  have m: "display_message posix [''a'' @ [NL] @ ''b'']
     (fmt (plain\<lparr>hideprefix := True, prefix_kw := Some '' job ''\<rparr>)) = Inr (''a'' @ [NL] @ ''b'')"
    by (simp add: display_message_def posix_def)
  have l: "split_nl (''a'' @ [NL] @ ''b'') = [''a'', ''b'']"
    by (simp add: split_nl_def)
  have f: "final_prefix Logger (plain\<lparr>hideprefix := True, prefix_kw := Some '' job ''\<rparr>) = ''job''"
    by (simp add: final_prefix_def plain_def strip_def isspace_def)
  have "stdout (snd (snd (call posix Logger [''a'' @ [NL] @ ''b'']
       (plain\<lparr>hideprefix := True, prefix_kw := Some '' job ''\<rparr>) world_logging))) =
     cyan ''     '' @ default ''a'' @ [NL] @ ''     '' @ default ''b'' @ [NL]"
  proof -
    have k: "\<not> error (plain\<lparr>hideprefix := True, prefix_kw := Some '' job ''\<rparr>)"
      "\<not> warning (plain\<lparr>hideprefix := True, prefix_kw := Some '' job ''\<rparr>)"
      "hideprefix (plain\<lparr>hideprefix := True, prefix_kw := Some '' job ''\<rparr>)"
      "select_colors Logger (plain\<lparr>hideprefix := True, prefix_kw := Some '' job ''\<rparr>) =
         (cyan, default, Stdout)"
      "\<not> hanging world_logging" "stdout world_logging = []"
      by (simp_all add: select_colors_def plain_def Logger_def world_logging_def world0_def)
    show ?thesis
      using continuation_indent [OF g m l, where p = Logger]
      by (simp add: f k)
  qed
  with g m l show ?thesis by blast
qed




text \<open>What a call appends to the open file.\<close>

lemma content_fd_write:
  "fd w = Some h \<Longrightarrow> content (fd_write t w) (hpath h) = content w (hpath h) @ t"
  by (simp add: content_def fd_write_def split: option.splits)

lemma content_same_files: "files w' = files w \<Longrightarrow> content w' path = content w path"
  by (simp add: content_def)

lemma strip_codes_NL: "strip_codes [NL] = [NL]"
  by (simp add: strip_codes_def match_len_def)

lemma content_printf_write:
  "fd w = Some h \<Longrightarrow> \<not> hclosed h \<Longrightarrow>
   content (printf_write e c s w) (hpath h) = content w (hpath h) @ strip_codes s"
  by (simp add: printf_write_def Let_def isopen_def content_def fd_write_def split: option.splits)

lemma content_mirror:
  assumes "fd w = Some h" "\<not> hclosed h" "\<not> debug k"
  shows "content (snd (mirror e p k prefix pre m w)) (hpath h) =
           content w (hpath h)
           @ (if timestamps w then ''[ '' @ timestamp e @ '' ]  '' else [])
           @ (if error k then ''ERROR -> ''
              else if warning k then ''WARNING -> ''
              else if prefix \<noteq> [] \<and> prefix \<noteq> prefix0 p \<and> \<not> hideprefix k then pre
              else [])
           @ strip_codes m @ [NL]"
  using assms
  by (simp add: mirror_def Let_def isopen_def content_fd_write fd_write_fields)

lemma fst_mirror:
  "fst (mirror e p k prefix pre m w) = (if isopen w \<and> \<not> debug k then strip_codes m else m)"
  by (simp add: mirror_def Let_def)

lemma call_content:
  assumes g: "\<not> suppressed k w"
    and m: "display_message e msg (fmt k) = Inr m"
    and d: "\<not> debug k"
    and h: "fd w = Some h" "\<not> hclosed h"
  shows "content (snd (snd (call e p msg k w))) (hpath h) =
           content w (hpath h)
           @ (if hanging w \<and> \<not> QUIET_MODE w then [NL] else [])
           @ (if timestamps w then ''[ '' @ timestamp e @ '' ]  '' else [])
           @ (if error k then ''ERROR -> ''
              else if warning k then ''WARNING -> ''
              else if final_prefix p k \<noteq> [] \<and> final_prefix p k \<noteq> prefix0 p \<and> \<not> hideprefix k
                then pre_of (final_prefix p k)
              else [])
           @ strip_codes m @ [NL]"
proof -
  obtain l ls where l: "split_nl m = l # ls"
    using split_nl_nonempty [of m] by (cases "split_nl m") auto
  show ?thesis
    by (simp add: call_ungated[OF g m l] Let_def content_same_files[OF popup_fields(5)]
        content_mirror d h fold_print_fields print_to_fields printf_write_fields
        content_same_files[OF fold_print_fields(5)] content_same_files[OF print_to_fields(5)]
        content_printf_write strip_codes_NL)
qed

lemma strip_from_Cons:
  "strip_from k (c # cs) =
     (if k = 0
      then (case match_len (c # cs) of Some n \<Rightarrow> strip_from (n - 1) cs
            | None \<Rightarrow> c # strip_from 0 cs)
      else strip_from (k - 1) cs)"
  by (cases k) simp_all

lemma strip_codes_disk_full: "strip_codes ''Error: disk full'' = ''Error: disk full''"
  by (simp add: strip_codes_def match_len_def)

lemma format_auto_disk_full:
  "format posix ''Error: {}'' [''disk full''] [] = Inr ''Error: disk full''"
  by (simp add: posix_def)

text \<open>
  C3 (as amended). \<^verbatim>\<open>emit("Error: {}", "disk full", error=True)\<close> prints on the
  error stream the red prefix \<^verbatim>\<open>Error: \<close> followed by the red message
  \<^verbatim>\<open>Error: disk full\<close>, so the line reads \<^verbatim>\<open>Error: Error: disk full\<close>; and when a
  file is open, timestamps are off and no line is hanging, exactly the record
  \<^verbatim>\<open>ERROR -> Error: disk full\<close> with its newline is appended to the file.
\<close>

theorem error_scenario:
  assumes "format e ''Error: {}'' [''disk full''] [] = Inr ''Error: disk full''"
    and "sep e = CHR ''/'' \<or> sep e = CHR 0x5C"
  shows
    "fst (call e p [''Error: {}'', ''disk full''] (plain\<lparr>error := True\<rparr>) w) = None \<and>
     stderr (snd (snd (call e p [''Error: {}'', ''disk full''] (plain\<lparr>error := True\<rparr>) w))) =
       stderr w @ red ''Error: '' @ red ''Error: disk full'' @ [NL] \<and>
     (fd w = Some h \<and> \<not> hclosed h \<and> \<not> timestamps w \<and> \<not> hanging w \<longrightarrow>
      content (snd (snd (call e p [''Error: {}'', ''disk full''] (plain\<lparr>error := True\<rparr>) w)))
        (hpath h) = content w (hpath h) @ ''ERROR -> Error: disk full'' @ [NL])"
proof -
  have k: "error (plain\<lparr>error := True\<rparr>)" "\<not> hideprefix (plain\<lparr>error := True\<rparr>)"
    "\<not> debug (plain\<lparr>error := True\<rparr>)" "fmt (plain\<lparr>error := True\<rparr>) = []"
    "select_colors p (plain\<lparr>error := True\<rparr>) = (red, red, Stderr)"
    "final_prefix p (plain\<lparr>error := True\<rparr>) = ''Error''"
    by (simp_all add: select_colors_def final_prefix_def plain_def)
  have g: "\<not> suppressed (plain\<lparr>error := True\<rparr>) w"
    by (simp add: k)
  have m: "display_message e [''Error: {}'', ''disk full''] (fmt (plain\<lparr>error := True\<rparr>)) =
             Inr ''Error: disk full''"
    using assms by (auto simp: display_message_def k)
  have l: "split_nl ''Error: disk full'' = [''Error: disk full'']"
    by (simp add: split_nl_def)
  show ?thesis
    by (simp add: call_console(1,3)[OF g m l] call_content[OF g m k(3)] k pre_of_def
        strip_codes_disk_full)
qed

theorem error_scenario_witness:
  "format posix ''Error: {}'' [''disk full''] [] = Inr ''Error: disk full'' \<and>
   (sep posix = CHR ''/'' \<or> sep posix = CHR 0x5C) \<and>
   fd world_logging = Some \<lparr>hpath = ''x.log'', hclosed = False\<rparr> \<and>
   \<not> timestamps world_logging \<and> \<not> hanging world_logging \<and>
   stderr (snd (snd (call posix Logger [''Error: {}'', ''disk full''] (plain\<lparr>error := True\<rparr>)
       world_logging))) = red ''Error: '' @ red ''Error: disk full'' @ [NL] \<and>
   content (snd (snd (call posix Logger [''Error: {}'', ''disk full''] (plain\<lparr>error := True\<rparr>)
       world_logging))) ''x.log'' = ''ERROR -> Error: disk full'' @ [NL]"
proof -
  have s: "sep posix = CHR ''/'' \<or> sep posix = CHR 0x5C"
    by (simp add: posix_def)
  have w: "fd world_logging = Some \<lparr>hpath = ''x.log'', hclosed = False\<rparr>"
    "\<not> timestamps world_logging" "\<not> hanging world_logging" "stderr world_logging = []"
    "content world_logging ''x.log'' = []"
    by (simp_all add: world_logging_def world0_def content_def)
  show ?thesis
    using error_scenario [OF format_auto_disk_full s, where p = Logger and w = world_logging
        and h = "\<lparr>hpath = ''x.log'', hclosed = False\<rparr>"]
    by (simp add: w s format_auto_disk_full)
qed

text \<open>
  C3 as stated fails: in that scenario the record in the file is not
  \<^verbatim>\<open>ERROR -> disk full\<close>, and the line on the error stream, colours removed, is not
  \<^verbatim>\<open>Error: disk full\<close>.
\<close>

theorem error_scenario_counterexample:
  "content (snd (snd (call posix Logger [''Error: {}'', ''disk full''] (plain\<lparr>error := True\<rparr>)
       world_logging))) ''x.log'' \<noteq> ''ERROR -> disk full'' @ [NL] \<and>
   strip_codes (stderr (snd (snd (call posix Logger [''Error: {}'', ''disk full'']
       (plain\<lparr>error := True\<rparr>) world_logging)))) = ''Error: Error: disk full'' @ [NL] \<and>
   strip_codes (stderr (snd (snd (call posix Logger [''Error: {}'', ''disk full'']
       (plain\<lparr>error := True\<rparr>) world_logging)))) \<noteq> ''Error: disk full'' @ [NL]"
proof -
  have k: "error (plain\<lparr>error := True\<rparr>)" "\<not> hideprefix (plain\<lparr>error := True\<rparr>)"
    "\<not> debug (plain\<lparr>error := True\<rparr>)" "fmt (plain\<lparr>error := True\<rparr>) = []"
    "select_colors Logger (plain\<lparr>error := True\<rparr>) = (red, red, Stderr)"
    "final_prefix Logger (plain\<lparr>error := True\<rparr>) = ''Error''"
    by (simp_all add: select_colors_def final_prefix_def plain_def)
  have g: "\<not> suppressed (plain\<lparr>error := True\<rparr>) world_logging"
    by (simp add: k)
  have m: "display_message posix [''Error: {}'', ''disk full''] (fmt (plain\<lparr>error := True\<rparr>)) =
             Inr ''Error: disk full''"
    by (simp add: display_message_def k posix_def)
  have l: "split_nl ''Error: disk full'' = [''Error: disk full'']"
    by (simp add: split_nl_def)
  have w: "fd world_logging = Some \<lparr>hpath = ''x.log'', hclosed = False\<rparr>"
    "\<not> timestamps world_logging" "\<not> hanging world_logging" "stderr world_logging = []"
    "content world_logging ''x.log'' = []"
    by (simp_all add: world_logging_def world0_def content_def)
  have c: "content (snd (snd (call posix Logger [''Error: {}'', ''disk full'']
       (plain\<lparr>error := True\<rparr>) world_logging))) ''x.log'' = ''ERROR -> Error: disk full'' @ [NL]"
    using call_content[OF g m k(3) w(1), where p = Logger]
    by (simp add: w k strip_codes_disk_full)
  have e: "stderr (snd (snd (call posix Logger [''Error: {}'', ''disk full'']
       (plain\<lparr>error := True\<rparr>) world_logging))) = red ''Error: '' @ red ''Error: disk full'' @ [NL]"
    by (simp add: call_console(3)[OF g m l] k w pre_of_def)
  have s: "strip_codes (red ''Error: '' @ red ''Error: disk full'' @ [NL]) =
             ''Error: Error: disk full'' @ [NL]"
    by (simp add: red_def color_format_def strip_codes_def match_len_def isdigit_def
        strip_from_Cons del: strip_from.simps(2,3))
  show ?thesis
    by (simp add: c e s)
qed













text \<open>What a call forwards to the notifier.\<close>

lemma notified_fields:
  "notified (printf_write e c s w) = notified w"
  "notified (print_to co t w) = notified w"
  "notified (fold (\<lambda>line. print_to co (f line)) ls w) = notified w"
  "notified (snd (mirror e p k prefix pre m w)) = notified w"
  by (simp_all add: printf_write_def print_to_def fold_print_to mirror_def Let_def
      fd_write_fields split: stream.splits)

lemma isopen_fields:
  "isopen (printf_write e c s w) = isopen w"
  "isopen (print_to co t w) = isopen w"
  "isopen (fold (\<lambda>line. print_to co (f line)) ls w) = isopen w"
  by (simp_all add: isopen_def printf_write_fields print_to_fields fold_print_fields)

lemma notified_popup:
  "notified (snd (popup_notify p k m w)) =
     notified w @
     (if popup k
      then [if error k then (drop 7 m, ''Console'', Some ''Error'')
            else if warning k then (drop 9 m, ''Console'', Some ''Warning'')
            else (m, ''Console'', None)]
      else [])"
  by (simp add: popup_notify_def notify_def Let_def)

lemma call_notified:
  assumes g: "\<not> suppressed k w"
    and m: "display_message e msg (fmt k) = Inr m"
  shows "notified (snd (snd (call e p msg k w))) =
     notified w @
     (if popup k
      then [if error k
              then (drop 7 (if isopen w \<and> \<not> debug k then strip_codes m else m),
                    ''Console'', Some ''Error'')
            else if warning k
              then (drop 9 (if isopen w \<and> \<not> debug k then strip_codes m else m),
                    ''Console'', Some ''Warning'')
            else (if isopen w \<and> \<not> debug k then strip_codes m else m, ''Console'', None)]
      else [])"
proof -
  obtain l ls where l: "split_nl m = l # ls"
    using split_nl_nonempty [of m] by (cases "split_nl m") auto
  show ?thesis
    by (simp add: call_ungated[OF g m l] Let_def notified_popup notified_fields fst_mirror
        isopen_fields)
qed

text \<open>
  C8. The pattern of the substitution has no alternative for the opening sequence
  of the \<^verbatim>\<open>default\<close> colour, \<^verbatim>\<open>ESC [ m\<close>, whose code is empty: a message coloured
  with \<^verbatim>\<open>default\<close> keeps that escape sequence in the file, on the prefixed path
  and on the raw path alike. The opening sequences of the other colours and the
  closing sequence are removed, as for \<^verbatim>\<open>red\<close>.
\<close>

theorem default_escape_kept:
  "strip_codes (default ''x'') = ESC # ''[mx'' \<and>
   strip_codes (red ''x'') = ''x'' \<and>
   content (snd (snd (call posix Logger [default ''x''] plain world_logging))) ''x.log'' =
     ESC # ''[mx'' @ [NL] \<and>
   content (snd (printf posix Logger (default ''x'') None world_logging)) ''x.log'' =
     ESC # ''[mx''"
proof -
  have s: "strip_codes (default ''x'') = ESC # ''[mx''"
    by (simp add: default_def color_format_def strip_codes_def match_len_def isdigit_def
        strip_from_Cons del: strip_from.simps(2,3))
  have r: "strip_codes (red ''x'') = ''x''"
    by (simp add: red_def color_format_def strip_codes_def match_len_def isdigit_def
        strip_from_Cons del: strip_from.simps(2,3))
  have k: "\<not> error plain" "\<not> warning plain" "\<not> hideprefix plain" "\<not> debug plain"
    "quiet_kw plain = None" "fmt plain = []" "final_prefix Logger plain = []"
    by (simp_all add: final_prefix_def strip_def plain_def Logger_def)
  have w: "\<not> QUIET_MODE world_logging"
    "fd world_logging = Some \<lparr>hpath = ''x.log'', hclosed = False\<rparr>"
    "\<not> timestamps world_logging" "\<not> hanging world_logging"
    "content world_logging ''x.log'' = []"
    by (simp_all add: world_logging_def world0_def content_def)
  have g: "\<not> suppressed plain world_logging"
    by (simp add: k w)
  have m: "display_message posix [default ''x''] (fmt plain) = Inr (default ''x'')"
    by (simp add: display_message_def posix_def default_def color_format_def)
  have c: "content (snd (snd (call posix Logger [default ''x''] plain world_logging))) ''x.log'' =
     ESC # ''[mx'' @ [NL]"
    using call_content [OF g m k(4) w(2), where p = Logger]
    by (simp add: k w s)
  have p: "content (snd (printf posix Logger (default ''x'') None world_logging)) ''x.log'' =
     ESC # ''[mx''"
    using content_printf_write [OF w(2), where e = posix and c = "pref Logger"
        and s = "default ''x''"]
    by (simp add: printf_def w s)
  show ?thesis
    using s r c p by blast
qed

text \<open>
  C9. The body forwarded to the notifier for an error is the message without its
  first seven characters, and for a warning without its first nine, whatever these
  characters are; the message never carries the tag that the prefix adds on the
  console. \<^verbatim>\<open>emit("disk full", error=True, popup=True)\<close> forwards \<^verbatim>\<open>ll\<close>, and
  \<^verbatim>\<open>emit("low battery", warning=True, popup=True)\<close> forwards \<^verbatim>\<open>ry\<close>.
\<close>

theorem popup_cuts_message:
  "notified (snd (snd (call posix Logger [''disk full'']
       (plain\<lparr>error := True, popup := True\<rparr>) world0))) =
     [(''ll'', ''Console'', Some ''Error'')] \<and>
   notified (snd (snd (call posix Logger [''low battery'']
       (plain\<lparr>warning := True, popup := True\<rparr>) world0))) =
     [(''ry'', ''Console'', Some ''Warning'')]"
proof -
  have k: "error (plain\<lparr>error := True, popup := True\<rparr>)"
    "popup (plain\<lparr>error := True, popup := True\<rparr>)"
    "fmt (plain\<lparr>error := True, popup := True\<rparr>) = []"
    "warning (plain\<lparr>warning := True, popup := True\<rparr>)"
    "\<not> error (plain\<lparr>warning := True, popup := True\<rparr>)"
    "popup (plain\<lparr>warning := True, popup := True\<rparr>)"
    "fmt (plain\<lparr>warning := True, popup := True\<rparr>) = []"
    by (simp_all add: plain_def)
  have w: "\<not> isopen world0" "notified world0 = []"
    by (simp_all add: isopen_def world0_def)
  have g: "\<not> suppressed (plain\<lparr>error := True, popup := True\<rparr>) world0"
    "\<not> suppressed (plain\<lparr>warning := True, popup := True\<rparr>) world0"
    by (simp_all add: k)
  have m: "display_message posix [''disk full''] (fmt (plain\<lparr>error := True, popup := True\<rparr>)) =
             Inr ''disk full''"
    "display_message posix [''low battery''] (fmt (plain\<lparr>warning := True, popup := True\<rparr>)) =
             Inr ''low battery''"
    by (simp_all add: display_message_def posix_def)
  show ?thesis
    by (simp add: call_notified [OF g(1) m(1)] call_notified [OF g(2) m(2)] k w)
qed

end
